theory Spec2Isabelle
  imports Main
begin

section \<open>The connection broker of \<open>src/models/server.ts\<close>\<close>

text \<open>
  The class \<open>MoopsyServer\<close> accepts connections over two transports (a SocketIO socket
  and an HTTP fallback), registers every connection in the object \<open>this.connections\<close>
  under the connection's id, and routes HTTP message requests to the registered
  connection. This theory embeds the four handlers of the class
  (\<open>handleHTTPEstablishRequest\<close>, \<open>handleHTTPMessageRequest\<close>,
  \<open>handleNewSocketIOConnection\<close>, \<open>handleNewConnection\<close>) as functions on an explicit
  server state, and proves what they do.

  One run of one handler is modelled, from its call to its return, as the single-threaded
  event loop runs it; what other tasks do while a handler is suspended at an \<open>await\<close> is
  outside the model. JavaScript strings are modelled as \<open>string\<close>.
\<close>

subsection \<open>JavaScript values the handlers inspect\<close>

text \<open>
  A header of Node's \<open>IncomingHttpHeaders\<close> that has no declared type of its own is
  \<open>string | string[] | undefined\<close>.
\<close>

datatype header_value = HUndefined | HString string | HArray "string list"

text \<open>\<open>!v\<close>: \<open>undefined\<close> and the empty string are falsy, every array is truthy.\<close>

fun js_not :: "header_value \<Rightarrow> bool" where
  "js_not HUndefined = True"
| "js_not (HString s) = (s = [])"
| "js_not (HArray xs) = False"

fun typeof :: "header_value \<Rightarrow> string" where
  "typeof HUndefined = ''undefined''"
| "typeof (HString s) = ''string''"
| "typeof (HArray xs) = ''object''"

text \<open>\<open>Array.prototype.join\<close>, which \<open>Array.prototype.toString\<close> calls with a comma.\<close>

fun join :: "string \<Rightarrow> string list \<Rightarrow> string" where
  "join sep [] = []"
| "join sep [x] = x"
| "join sep (x # y # ys) = x @ sep @ join sep (y # ys)"

text \<open>\<open>v?.toString()\<close>: \<open>undefined\<close> when \<open>v\<close> is, else the string conversion.\<close>

fun optional_toString :: "header_value \<Rightarrow> string option" where
  "optional_toString HUndefined = None"
| "optional_toString (HString s) = Some s"
| "optional_toString (HArray xs) = Some (join '','' xs)"

text \<open>\<open>a ?? b\<close>: \<open>b\<close> only when \<open>a\<close> is \<open>undefined\<close> (an empty string is kept).\<close>

fun nullish_coalesce :: "'a option \<Rightarrow> 'a option \<Rightarrow> 'a option" where
  "nullish_coalesce None b = b"
| "nullish_coalesce (Some a) b = Some a"

text \<open>\<open>!v\<close> for a value of type \<open>string | undefined\<close>.\<close>

fun js_not_string :: "string option \<Rightarrow> bool" where
  "js_not_string None = True"
| "js_not_string (Some s) = (s = [])"

subsection \<open>Reading a string case-insensitively\<close>

definition toLowerCase :: "string \<Rightarrow> string" where
  "toLowerCase str =
     map (\<lambda>c. if (65::nat) \<le> of_char c \<and> (of_char c :: nat) \<le> 90
              then char_of (of_char c + (32::nat)) else c) str"

fun starts_with :: "string \<Rightarrow> string \<Rightarrow> bool" where
  "starts_with [] str = True"
| "starts_with (p # ps) [] = False"
| "starts_with (p # ps) (c # cs) = (p = c \<and> starts_with ps cs)"

fun includes_str :: "string \<Rightarrow> string \<Rightarrow> bool" where
  "includes_str [] sub = (sub = [])"
| "includes_str (c # cs) sub = (starts_with sub (c # cs) \<or> includes_str cs sub)"

subsection \<open>Requests, responses, sockets\<close>

text \<open>
  The four headers the handlers read. \<open>host\<close> is declared \<open>string | undefined\<close> by Node;
  the other three have the general header type.
\<close>

record IncomingHttpHeaders =
  host :: "string option"
  x_forwarded_for :: header_value
  x_seamless_publickey :: header_value
  x_seamless_connection_id :: header_value

text \<open>
  How Node builds \<open>message.headers\<close> from the header lines of a request, each a name and a
  value: names are lower-cased; of several \<open>host\<close> lines the first is kept; the values of
  any other header sent more than once are joined by a comma and a space into one string.
  None of the four headers is ever delivered as an array.
\<close>

fun header_values :: "string \<Rightarrow> (string \<times> string) list \<Rightarrow> string list" where
  "header_values name [] = []"
| "header_values name ((n, v) # lines) =
     (if toLowerCase n = name then v # header_values name lines else header_values name lines)"

definition joined_header :: "string \<Rightarrow> (string \<times> string) list \<Rightarrow> header_value" where
  "joined_header name lines =
     (case header_values name lines of
        [] \<Rightarrow> HUndefined
      | v # vs \<Rightarrow> HString (join '', '' (v # vs)))"

definition first_header :: "string \<Rightarrow> (string \<times> string) list \<Rightarrow> string option" where
  "first_header name lines =
     (case header_values name lines of
        [] \<Rightarrow> None
      | v # vs \<Rightarrow> Some v)"

definition IncomingMessage_headers :: "(string \<times> string) list \<Rightarrow> IncomingHttpHeaders" where
  "IncomingMessage_headers lines =
     \<lparr>host = first_header ''host'' lines,
      x_forwarded_for = joined_header ''x-forwarded-for'' lines,
      x_seamless_publickey = joined_header ''x-seamless-publickey'' lines,
      x_seamless_connection_id = joined_header ''x-seamless-connection-id'' lines\<rparr>"

record Request =
  headers :: IncomingHttpHeaders
  remoteAddress :: "string option"

text \<open>What \<open>res.status(c).end(b)\<close> and \<open>res.writeHead(c).end(b)\<close> send.\<close>

record Response =
  status :: nat
  body :: string

record HTTPPublicKey =
  key :: string
  type :: string

text \<open>A SocketIO socket: its id and the headers of its handshake.\<close>

record Socket =
  sid :: string
  handshake_headers :: IncomingHttpHeaders

subsection \<open>Connections, thrown values, effects\<close>

record MoopsyConnection =
  conn_id :: string
  rawConnection :: "Socket option"
  hostname :: string
  ip :: string
  publicKey :: "HTTPPublicKey option"

text \<open>
  Modelled from the spec: the constructor of the class \<open>MoopsyConnection\<close>
  (\<open>./connection\<close>, not among the sources). A connection holds the transport, hostname,
  ip and public key it was created with, and an id produced by the identity generator; the
  id the generator yields is the last argument. The constructor does not touch the
  registry, whose only mutation points are in \<open>handleNewConnection\<close>.
\<close>

definition MoopsyConnection_new ::
  "Socket option \<Rightarrow> string \<Rightarrow> string \<Rightarrow> HTTPPublicKey option \<Rightarrow> string \<Rightarrow> MoopsyConnection" where
  "MoopsyConnection_new raw h i pk newId =
     \<lparr>conn_id = newId, rawConnection = raw, hostname = h, ip = i, publicKey = pk\<rparr>"

text \<open>
  What a handler can throw: a protocol-level error with its status code and message, an
  ordinary \<open>Error\<close>, a \<open>TypeError\<close> of the language, a \<open>RangeError\<close> of Node, or any
  other value.
\<close>

datatype thrown =
    MoopsyError nat string
  | Error string
  | TypeError string
  | RangeError string
  | Thrown string

text \<open>
  Modelled from the spec: the type guard \<open>isMoopsyError\<close> (\<open>../lib/is-moopsy-error\<close>, not
  among the sources) recognises the protocol-level errors, which carry \<open>code\<close> and
  \<open>message\<close>.
\<close>

fun isMoopsyError :: "thrown \<Rightarrow> bool" where
  "isMoopsyError (MoopsyError c m) = True"
| "isMoopsyError e = False"

fun code :: "thrown \<Rightarrow> nat" where
  "code (MoopsyError c m) = c"
| "code e = 0"

fun message :: "thrown \<Rightarrow> string" where
  "message (MoopsyError c m) = m"
| "message (Error m) = m"
| "message (TypeError m) = m"
| "message (RangeError m) = m"
| "message (Thrown m) = m"

text \<open>
  The closure \<open>() => { delete this.connections[connection.id]; }\<close>, by the id it
  captured.
\<close>

datatype hook = DeleteConnection string

text \<open>
  The effects of a handler other than its response and the registry, in the order they
  happen: a \<open>MoopsyConnection\<close> constructed, a disconnect hook registered on a connection,
  a write to and a disconnect of a socket, a call of a connection's
  \<open>handleIncomingHTTPRequest\<close>, and a call of \<open>console.error\<close> with its arguments.
\<close>

datatype event =
    New MoopsyConnection
  | OnDisconnect string hook
  | SocketWrite string string
  | SocketDisconnect string
  | Inbound string
  | ConsoleError string string "string option" thrown


fun is_New :: "event \<Rightarrow> bool" where
  "is_New (New c) = True"
| "is_New e = False"

fun is_OnDisconnect :: "event \<Rightarrow> bool" where
  "is_OnDisconnect (OnDisconnect i h) = True"
| "is_OnDisconnect e = False"

text \<open>
  The server: the own properties of the object \<open>this.connections\<close>, and the effects so
  far.
\<close>

record MoopsyServer =
  connections :: "string \<rightharpoonup> MoopsyConnection"
  trace :: "event list"

definition emit :: "event \<Rightarrow> MoopsyServer \<Rightarrow> MoopsyServer" where
  "emit e s = s\<lparr>trace := trace s @ [e]\<rparr>"

text \<open>
  Modelled from the spec: the method \<open>onDisconnect\<close> of the class \<open>MoopsyConnection\<close>
  (not among the sources) registers a close hook on the connection; the registration is
  recorded as an effect.
\<close>

definition onDisconnect :: "MoopsyConnection \<Rightarrow> hook \<Rightarrow> MoopsyServer \<Rightarrow> MoopsyServer" where
  "onDisconnect connection cb s = emit (OnDisconnect (conn_id connection) cb) s"

subsection \<open>The registry is a plain object\<close>

text \<open>
  \<open>connections\<close> is initialised with the literal \<open>{}\<close>, so its prototype is
  \<open>Object.prototype\<close>: the operator \<open>in\<close> and a property read see the properties every
  object inherits, besides the object's own. The inherited values are functions (and, for
  \<open>__proto__\<close>, the prototype object), all truthy, and none of them is a connection.
\<close>

definition Object_prototype_keys :: "string list" where
  "Object_prototype_keys =
     [''constructor'', ''hasOwnProperty'', ''isPrototypeOf'', ''propertyIsEnumerable'',
      ''toLocaleString'', ''toString'', ''valueOf'', ''__proto__'',
      ''__defineGetter__'', ''__defineSetter__'', ''__lookupGetter__'', ''__lookupSetter__'']"

text \<open>\<open>k in obj\<close>.\<close>

definition js_in :: "string \<Rightarrow> (string \<rightharpoonup> MoopsyConnection) \<Rightarrow> bool" where
  "js_in k obj = (case obj k of Some c \<Rightarrow> True | None \<Rightarrow> k \<in> set Object_prototype_keys)"

text \<open>\<open>obj[k]\<close>: an own property, an inherited one, or \<open>undefined\<close>.\<close>

datatype property = Own MoopsyConnection | Inherited | Undefined

definition js_get :: "(string \<rightharpoonup> MoopsyConnection) \<Rightarrow> string \<Rightarrow> property" where
  "js_get obj k =
     (case obj k of
        Some c \<Rightarrow> Own c
      | None \<Rightarrow> if k \<in> set Object_prototype_keys then Inherited else Undefined)"

text \<open>
  \<open>delete obj[k]\<close> removes an own property and does nothing, without throwing, when
  there is none.
\<close>

definition js_delete :: "(string \<rightharpoonup> MoopsyConnection) \<Rightarrow> string \<Rightarrow> (string \<rightharpoonup> MoopsyConnection)" where
  "js_delete obj k = obj(k := None)"

definition run_hook :: "hook \<Rightarrow> MoopsyServer \<Rightarrow> MoopsyServer" where
  "run_hook h s = (case h of DeleteConnection i \<Rightarrow> s\<lparr>connections := js_delete (connections s) i\<rparr>)"

subsection \<open>\<open>JSON.stringify\<close> of an object of strings\<close>

definition hex_digit :: "nat \<Rightarrow> char" where
  "hex_digit n = ''0123456789abcdef'' ! (n mod 16)"

definition QuoteJSONChar :: "char \<Rightarrow> string" where
  "QuoteJSONChar c =
     (if c = CHR 0x08 then [CHR 0x5C, CHR ''b'']
      else if c = CHR 0x09 then [CHR 0x5C, CHR ''t'']
      else if c = CHR 0x0A then [CHR 0x5C, CHR ''n'']
      else if c = CHR 0x0C then [CHR 0x5C, CHR ''f'']
      else if c = CHR 0x0D then [CHR 0x5C, CHR ''r'']
      else if c = CHR 0x22 then [CHR 0x5C, CHR 0x22]
      else if c = CHR 0x5C then [CHR 0x5C, CHR 0x5C]
      else if (of_char c :: nat) < 32
        then [CHR 0x5C, CHR ''u'', CHR ''0'', CHR ''0'',
              hex_digit (of_char c div 16), hex_digit (of_char c)]
      else [c])"

definition QuoteJSONString :: "string \<Rightarrow> string" where
  "QuoteJSONString s = CHR 0x22 # concat (map QuoteJSONChar s) @ [CHR 0x22]"

definition JSON_stringify :: "(string \<times> string) list \<Rightarrow> string" where
  "JSON_stringify props =
     ''{'' @ join '','' (map (\<lambda>(k, v). QuoteJSONString k @ '':'' @ QuoteJSONString v) props) @ ''}''"

subsection \<open>\<open>res.writeHead(statusCode).end(chunk)\<close>\<close>

text \<open>
  Node's \<open>ServerResponse\<close>: \<open>writeHead\<close> throws a \<open>RangeError\<close>
  (\<open>ERR_HTTP_INVALID_STATUS_CODE\<close>) for a status code outside 100..999, and then nothing is
  sent; a response with an informational status, 204 or 304 has no body, so the chunk
  given to \<open>end\<close> is dropped; any other response carries the chunk as its body.
\<close>

definition writeHead_end :: "nat \<Rightarrow> string \<Rightarrow> thrown + Response" where
  "writeHead_end statusCode chunk =
     (if statusCode < 100 \<or> 999 < statusCode
      then Inl (RangeError ''Invalid status code'')
      else if statusCode < 200 \<or> statusCode = 204 \<or> statusCode = 304
      then Inr \<lparr>status = statusCode, body = []\<rparr>
      else Inr \<lparr>status = statusCode, body = chunk\<rparr>)"

subsection \<open>\<open>reportError\<close>\<close>

text \<open>
  \<open>console.error("@moopsyjs/server", message, data, error)\<close>: the one place of the class
  that logs an error. The effect holds the four arguments in the order of the call;
  \<open>data\<close> is optional.
\<close>

definition reportError :: "string \<Rightarrow> thrown \<Rightarrow> string option \<Rightarrow> MoopsyServer \<Rightarrow> MoopsyServer" where
  "reportError msg error data s = emit (ConsoleError ''@moopsyjs/server'' msg data error) s"

subsection \<open>\<open>handleNewConnection\<close>\<close>

text \<open>
  The result is the thrown value or the returned connection, with the server afterwards.
  The object stored in the registry is the one returned.
\<close>

definition handleNewConnection ::
  "Socket option \<Rightarrow> string \<Rightarrow> string \<Rightarrow> HTTPPublicKey option \<Rightarrow> string \<Rightarrow> MoopsyServer
     \<Rightarrow> (thrown + MoopsyConnection) \<times> MoopsyServer" where
  "handleNewConnection rawConn h i pk newId s =
     (let connection = MoopsyConnection_new rawConn h i pk newId;
          s1 = emit (New connection) s
      in if js_in (conn_id connection) (connections s1)
         then (Inl (Error (''Tried to add new connection with duplicate id '' @ conn_id connection)), s1)
         else
           let s2 = s1\<lparr>connections := (connections s1)(conn_id connection \<mapsto> connection)\<rparr>;
               s3 = onDisconnect connection (DeleteConnection (conn_id connection)) s2
           in (Inr connection, s3))"

subsection \<open>\<open>handleHTTPEstablishRequest\<close>\<close>

text \<open>
  The result is \<open>Inr\<close> the response sent, or \<open>Inl\<close> the value the handler's promise is
  rejected with (then no response was sent). After the three guards the public key is a
  string and hostname and ip are defined, which is what the first pattern of the \<open>case\<close>
  reads off; its second pattern is never reached.
\<close>

definition handleHTTPEstablishRequest ::
  "string \<Rightarrow> Request \<Rightarrow> MoopsyServer \<Rightarrow> (thrown + Response) \<times> MoopsyServer" where
  "handleHTTPEstablishRequest newId req s =
     (let publicKey = x_seamless_publickey (headers req)
      in if js_not publicKey \<or> typeof publicKey \<noteq> ''string''
         then (Inr \<lparr>status = 400, body = ''Missing x-seamless-publickey''\<rparr>, s)
         else
           let hostname = host (headers req);
               ip = nullish_coalesce (optional_toString (x_forwarded_for (headers req)))
                      (remoteAddress req)
           in if js_not_string hostname
              then (Inr \<lparr>status = 400, body = ''Unable to determine hostname''\<rparr>, s)
              else if js_not_string ip
              then (Inr \<lparr>status = 400, body = ''Unable to determine IP address''\<rparr>, s)
              else
                (case (publicKey, hostname, ip) of
                   (HString k, Some h, Some i) \<Rightarrow>
                     (case handleNewConnection None h i (Some \<lparr>key = k, type = ''ecdsa''\<rparr>) newId s of
                        (Inl e, s') \<Rightarrow> (Inl e, s')
                      | (Inr connection, s') \<Rightarrow>
                          (writeHead_end 200
                             (JSON_stringify [(''connectionId'', conn_id connection)]), s'))
                 | _ \<Rightarrow> (Inr \<lparr>status = 400, body = ''Missing x-seamless-publickey''\<rparr>, s)))"

subsection \<open>\<open>handleHTTPMessageRequest\<close>\<close>

text \<open>
  What the handler calls and the sources do not hold, as parameters:
  \<open>parseRequestBody\<close> and \<open>safeJSONParse\<close> (\<open>../lib\<close>), the method
  \<open>handleIncomingHTTPRequest\<close> of a connection, which may throw and may change the
  server, and \<open>EJSON.stringify\<close>. \<open>'p\<close> is the type of a parsed payload and \<open>'d\<close> of a
  result.
\<close>

record ('p, 'd) collaborators =
  parseRequestBody :: "Request \<Rightarrow> thrown + string"
  safeJSONParse :: "string \<Rightarrow> 'p"
  handleIncomingHTTPRequest ::
    "MoopsyConnection \<Rightarrow> 'p \<Rightarrow> MoopsyServer \<Rightarrow> (thrown + 'd) \<times> MoopsyServer"
  EJSON_stringify :: "'d \<Rightarrow> thrown + string"

text \<open>
  The body of the \<open>try\<close>. When \<open>connection\<close> is a value inherited from
  \<open>Object.prototype\<close>, its property \<open>handleIncomingHTTPRequest\<close> is \<open>undefined\<close> and the
  call throws a \<open>TypeError\<close>.
\<close>

definition try_block ::
  "('p, 'd) collaborators \<Rightarrow> property \<Rightarrow> string \<Rightarrow> MoopsyServer
     \<Rightarrow> (thrown + Response) \<times> MoopsyServer" where
  "try_block env connection rawData s =
     (case connection of
        Own c \<Rightarrow>
          (case handleIncomingHTTPRequest env c (safeJSONParse env rawData)
                  (emit (Inbound (conn_id c)) s) of
             (Inl e, s') \<Rightarrow> (Inl e, s')
           | (Inr data, s') \<Rightarrow>
               (case EJSON_stringify env data of
                  Inl e \<Rightarrow> (Inl e, s')
                | Inr responseData \<Rightarrow> (writeHead_end 200 responseData, s')))
      | _ \<Rightarrow> (Inl (TypeError ''connection.handleIncomingHTTPRequest is not a function''), s))"

text \<open>
  The \<open>catch\<close>. What \<open>writeHead\<close> throws here is thrown out of the handler: its promise
  is rejected and no response is sent.
\<close>

definition catch_block :: "thrown \<Rightarrow> MoopsyServer \<Rightarrow> (thrown + Response) \<times> MoopsyServer" where
  "catch_block e s =
     (if isMoopsyError e
      then (writeHead_end (code e) (message e), s)
      else (writeHead_end 500 ''Internal Server Error'', s))"

text \<open>
  The handler. After the first guard the connection id is a string, which the \<open>case\<close>
  reads off; its second pattern is never reached. \<open>!connection\<close> holds for \<open>undefined\<close>
  only: a connection and an inherited value are both truthy.
\<close>

definition handleHTTPMessageRequest ::
  "('p, 'd) collaborators \<Rightarrow> Request \<Rightarrow> MoopsyServer \<Rightarrow> (thrown + Response) \<times> MoopsyServer" where
  "handleHTTPMessageRequest env req s =
     (let connectionId = x_seamless_connection_id (headers req)
      in if js_not connectionId \<or> typeof connectionId \<noteq> ''string''
         then (Inr \<lparr>status = 400, body = ''Missing connectionId''\<rparr>, s)
         else
           (case connectionId of
              HString cid \<Rightarrow>
                (let connection = js_get (connections s) cid
                 in if connection = Undefined
                    then (Inr \<lparr>status = 404, body = ''Connection not found''\<rparr>, s)
                    else
                      (case parseRequestBody env req of
                         Inl e \<Rightarrow> (Inl e, s)
                       | Inr rawData \<Rightarrow>
                           (case try_block env connection rawData s of
                              (Inl e, s') \<Rightarrow> catch_block e s'
                            | (Inr r, s') \<Rightarrow> (Inr r, s'))))
            | _ \<Rightarrow> (Inr \<lparr>status = 400, body = ''Missing connectionId''\<rparr>, s)))"

subsection \<open>\<open>handleNewSocketIOConnection\<close>\<close>

text \<open>
  \<open>determineIPFromSocket\<close> (\<open>../lib\<close>, not among the sources) is a parameter.
  \<open>hostname == null\<close> holds for \<open>undefined\<close> only: an empty host passes.
\<close>

definition handleNewSocketIOConnection ::
  "(Socket \<Rightarrow> string) \<Rightarrow> string \<Rightarrow> Socket \<Rightarrow> MoopsyServer \<Rightarrow> (thrown + unit) \<times> MoopsyServer" where
  "handleNewSocketIOConnection determineIPFromSocket newId socket s =
     (case host (handshake_headers socket) of
        None \<Rightarrow>
          (Inr (), emit (SocketDisconnect (sid socket))
                     (emit (SocketWrite (sid socket) ''error:missing-hostname'') s))
      | Some h \<Rightarrow>
          (let i = determineIPFromSocket socket
           in case handleNewConnection (Some socket) h i None newId s of
                (Inl e, s') \<Rightarrow> (Inl e, s')
              | (Inr connection, s') \<Rightarrow> (Inr (), s')))"

subsection \<open>Concrete inputs\<close>

definition no_headers :: IncomingHttpHeaders where
  "no_headers = \<lparr>host = None, x_forwarded_for = HUndefined,
                  x_seamless_publickey = HUndefined, x_seamless_connection_id = HUndefined\<rparr>"

definition example_headers :: IncomingHttpHeaders where
  "example_headers = \<lparr>host = Some ''example.com'', x_forwarded_for = HString ''10.0.0.1'',
                       x_seamless_publickey = HString ''pk_abc'',
                       x_seamless_connection_id = HUndefined\<rparr>"

definition example_connection :: MoopsyConnection where
  "example_connection =
     MoopsyConnection_new None ''example.com'' ''10.0.0.1''
       (Some \<lparr>key = ''pk_abc'', type = ''ecdsa''\<rparr>) ''abc''"

definition empty_server :: MoopsyServer where
  "empty_server = \<lparr>connections = Map.empty, trace = []\<rparr>"

definition one_connection_server :: MoopsyServer where
  "one_connection_server = \<lparr>connections = [''abc'' \<mapsto> example_connection], trace = []\<rparr>"

text \<open>
  Collaborators whose inbound handler throws what it is given (a protocol-level error for
  the payload \<open>moopsy\<close>, an ordinary error otherwise) and changes nothing.
\<close>

definition throwing_collaborators :: "(string, string) collaborators" where
  "throwing_collaborators =
     \<lparr>parseRequestBody = (\<lambda>req. Inr ''moopsy''),
      safeJSONParse = (\<lambda>raw. raw),
      handleIncomingHTTPRequest =
        (\<lambda>c p s. (Inl (if p = ''moopsy'' then MoopsyError 403 ''Forbidden''
                             else Error ''secret detail''), s)),
      EJSON_stringify = (\<lambda>d. Inr d)\<rparr>"



text \<open>The header lines of a request that sends its public key, and its connection id, twice.\<close>

definition repeated_header_lines :: "(string \<times> string) list" where
  "repeated_header_lines =
     [(''Host'', ''example.com''),
      (''X-Forwarded-For'', ''10.0.0.1''),
      (''X-Seamless-PublicKey'', ''pk_a''),
      (''X-Seamless-PublicKey'', ''pk_b''),
      (''X-Seamless-Connection-Id'', ''abc''),
      (''X-Seamless-Connection-Id'', ''abc'')]"

text \<open>The header lines of a socket handshake whose \<open>Host\<close> is empty.\<close>

definition empty_host_lines :: "(string \<times> string) list" where
  "empty_host_lines = [(''Host'', []), (''Upgrade'', ''websocket'')]"

section \<open>Properties\<close>

subsection \<open>Facts about \<open>handleNewConnection\<close> shared by the proofs\<close>

lemma emit_simps:
  "connections (emit e s) = connections s"
  "trace (emit e s) = trace s @ [e]"
  by (simp_all add: emit_def)

lemma writeHead_end_200 [simp]:
  "writeHead_end 200 chunk = Inr \<lparr>status = 200, body = chunk\<rparr>"
  by (simp add: writeHead_end_def)

lemma writeHead_end_500 [simp]:
  "writeHead_end 500 chunk = Inr \<lparr>status = 500, body = chunk\<rparr>"
  by (simp add: writeHead_end_def)

lemma handleNewConnection_collision:
  "js_in newId (connections s) \<Longrightarrow>
   handleNewConnection rawConn h i pk newId s =
     (Inl (Error (''Tried to add new connection with duplicate id '' @ newId)),
      emit (New (MoopsyConnection_new rawConn h i pk newId)) s)"
  by (simp add: handleNewConnection_def Let_def emit_simps MoopsyConnection_new_def)

lemma handleNewConnection_fresh:
  "\<not> js_in newId (connections s) \<Longrightarrow>
   handleNewConnection rawConn h i pk newId s =
     (Inr (MoopsyConnection_new rawConn h i pk newId),
      \<lparr>connections = (connections s)(newId \<mapsto> MoopsyConnection_new rawConn h i pk newId),
       trace = trace s @ [New (MoopsyConnection_new rawConn h i pk newId),
                          OnDisconnect newId (DeleteConnection newId)]\<rparr>)"
  by (simp add: handleNewConnection_def Let_def emit_def onDisconnect_def MoopsyConnection_new_def)

lemma js_in_own: "obj k = Some c \<Longrightarrow> js_in k obj"
  by (simp add: js_in_def)

lemma not_js_in_None: "\<not> js_in k obj \<Longrightarrow> obj k = None"
  by (simp add: js_in_def split: option.splits)

lemma conn_id_new: "conn_id (MoopsyConnection_new rawConn h i pk newId) = newId"
  by (simp add: MoopsyConnection_new_def)

lemma ip_new: "ip (MoopsyConnection_new rawConn h i pk newId) = i"
  by (simp add: MoopsyConnection_new_def)

subsection \<open>C1: a duplicate id aborts the establishment\<close>

text \<open>
  C1. When the freshly generated id is already a key of the registry,
  \<open>handleNewConnection\<close> (whatever the transport \<open>rawConn\<close>) throws the error
  "Tried to add new connection with duplicate id ..."; the registry is what it was, so
  the existing entry is kept and the new connection is not inserted, and no disconnect
  hook has been registered.
\<close>

theorem C1_duplicate_id_aborts:
  assumes "connections s newId = Some old"
  shows "handleNewConnection rawConn h i pk newId s =
           (Inl (Error (''Tried to add new connection with duplicate id '' @ newId)),
            emit (New (MoopsyConnection_new rawConn h i pk newId)) s)
         \<and> connections (snd (handleNewConnection rawConn h i pk newId s)) = connections s
         \<and> connections (snd (handleNewConnection rawConn h i pk newId s)) newId = Some old
         \<and> filter is_OnDisconnect (trace (snd (handleNewConnection rawConn h i pk newId s)))
             = filter is_OnDisconnect (trace s)"
proof -
  from assms have "js_in newId (connections s)"
    by (rule js_in_own)
  then have "handleNewConnection rawConn h i pk newId s =
           (Inl (Error (''Tried to add new connection with duplicate id '' @ newId)),
            emit (New (MoopsyConnection_new rawConn h i pk newId)) s)"
    by (rule handleNewConnection_collision)
  with assms show ?thesis
    by (simp add: emit_simps)
qed

text \<open>The theorem at a registry that holds \<open>abc\<close>, for both transports.\<close>

theorem C1_duplicate_id_aborts_witness:
  "connections one_connection_server ''abc'' = Some example_connection
   \<and> fst (handleNewConnection None ''h'' ''1.2.3.4'' None ''abc'' one_connection_server)
       = Inl (Error ''Tried to add new connection with duplicate id abc'')
   \<and> fst (handleNewConnection (Some \<lparr>sid = ''s1'', handshake_headers = example_headers\<rparr>)
             ''h'' ''1.2.3.4'' None ''abc'' one_connection_server)
       = Inl (Error ''Tried to add new connection with duplicate id abc'')
   \<and> connections (snd (handleNewConnection None ''h'' ''1.2.3.4'' None ''abc'' one_connection_server))
        ''abc'' = Some example_connection"
proof -
  have own: "connections one_connection_server ''abc'' = Some example_connection"
    by (simp add: one_connection_server_def)
  show ?thesis
    using own
      C1_duplicate_id_aborts [OF own, of None "''h''" "''1.2.3.4''" None]
      C1_duplicate_id_aborts [OF own,
        of "Some \<lparr>sid = ''s1'', handshake_headers = example_headers\<rparr>" "''h''" "''1.2.3.4''" None]
    by (simp add: emit_simps)
qed

subsection \<open>C2: a missing or non-string public key\<close>

text \<open>
  C2. When the header \<open>x-seamless-publickey\<close> of an HTTP establish request is missing
  or is not a string, the response has status 400 and a body that contains
  \<open>publickey\<close> read case-insensitively; the server is left as it was: no connection is
  constructed and the registry is unchanged.
\<close>

theorem C2_missing_publickey_rejected:
  assumes "x_seamless_publickey (headers req) = HUndefined
           \<or> typeof (x_seamless_publickey (headers req)) \<noteq> ''string''"
  shows "\<exists>r. handleHTTPEstablishRequest newId req s = (Inr r, s)
             \<and> status r = 400
             \<and> includes_str (toLowerCase (body r)) ''publickey''"
proof -
  from assms have "js_not (x_seamless_publickey (headers req))
                   \<or> typeof (x_seamless_publickey (headers req)) \<noteq> ''string''"
    by auto
  then have "handleHTTPEstablishRequest newId req s =
               (Inr \<lparr>status = 400, body = ''Missing x-seamless-publickey''\<rparr>, s)"
    by (simp add: handleHTTPEstablishRequest_def Let_def)
  moreover have "includes_str (toLowerCase ''Missing x-seamless-publickey'') ''publickey''"
    by (simp add: toLowerCase_def)
  ultimately show ?thesis
    by simp
qed

text \<open>A request with no header at all, and one whose public key arrives as an array.\<close>

theorem C2_missing_publickey_rejected_witness:
  "x_seamless_publickey (headers \<lparr>headers = no_headers, remoteAddress = Some ''10.0.0.1''\<rparr>)
     = HUndefined
   \<and> (\<exists>r. handleHTTPEstablishRequest ''id1''
              \<lparr>headers = no_headers, remoteAddress = Some ''10.0.0.1''\<rparr> one_connection_server
            = (Inr r, one_connection_server)
          \<and> status r = 400 \<and> includes_str (toLowerCase (body r)) ''publickey'')
   \<and> typeof (x_seamless_publickey (headers
         \<lparr>headers = example_headers\<lparr>x_seamless_publickey := HArray [''pk_a'', ''pk_b'']\<rparr>,
          remoteAddress = Some ''10.0.0.1''\<rparr>)) = ''object''
   \<and> (\<exists>r. handleHTTPEstablishRequest ''id1''
              \<lparr>headers = example_headers\<lparr>x_seamless_publickey := HArray [''pk_a'', ''pk_b'']\<rparr>,
               remoteAddress = Some ''10.0.0.1''\<rparr> one_connection_server
            = (Inr r, one_connection_server)
          \<and> status r = 400 \<and> includes_str (toLowerCase (body r)) ''publickey'')"
proof -
  have a: "x_seamless_publickey (headers \<lparr>headers = no_headers, remoteAddress = Some ''10.0.0.1''\<rparr>)
             = HUndefined"
    by (simp add: no_headers_def)
  have b: "typeof (x_seamless_publickey (headers
             \<lparr>headers = example_headers\<lparr>x_seamless_publickey := HArray [''pk_a'', ''pk_b'']\<rparr>,
              remoteAddress = Some ''10.0.0.1''\<rparr>)) = ''object''"
    by simp
  from a have a': "x_seamless_publickey (headers \<lparr>headers = no_headers, remoteAddress = Some ''10.0.0.1''\<rparr>)
             = HUndefined
           \<or> typeof (x_seamless_publickey
                (headers \<lparr>headers = no_headers, remoteAddress = Some ''10.0.0.1''\<rparr>)) \<noteq> ''string''"
    by (rule disjI1)
  from b have b': "x_seamless_publickey (headers
             \<lparr>headers = example_headers\<lparr>x_seamless_publickey := HArray [''pk_a'', ''pk_b'']\<rparr>,
              remoteAddress = Some ''10.0.0.1''\<rparr>) = HUndefined
           \<or> typeof (x_seamless_publickey (headers
             \<lparr>headers = example_headers\<lparr>x_seamless_publickey := HArray [''pk_a'', ''pk_b'']\<rparr>,
              remoteAddress = Some ''10.0.0.1''\<rparr>)) \<noteq> ''string''"
    by simp
  show ?thesis
    using a b C2_missing_publickey_rejected [OF a', of "''id1''" one_connection_server]
          C2_missing_publickey_rejected [OF b', of "''id1''" one_connection_server]
    by blast
qed


subsection \<open>Facts about \<open>handleHTTPEstablishRequest\<close> shared by the proofs\<close>

lemma establish_reject_publickey:
  "js_not (x_seamless_publickey (headers req))
     \<or> typeof (x_seamless_publickey (headers req)) \<noteq> ''string'' \<Longrightarrow>
   handleHTTPEstablishRequest newId req s =
     (Inr \<lparr>status = 400, body = ''Missing x-seamless-publickey''\<rparr>, s)"
  by (simp add: handleHTTPEstablishRequest_def Let_def)

lemma publickey_passes:
  "(\<not> (js_not v \<or> typeof v \<noteq> ''string'')) = (\<exists>k. v = HString k \<and> k \<noteq> [])"
  by (cases v) simp_all

lemma establish_reject_hostname:
  "x_seamless_publickey (headers req) = HString k \<Longrightarrow> k \<noteq> [] \<Longrightarrow>
   js_not_string (host (headers req)) \<Longrightarrow>
   handleHTTPEstablishRequest newId req s =
     (Inr \<lparr>status = 400, body = ''Unable to determine hostname''\<rparr>, s)"
  by (simp add: handleHTTPEstablishRequest_def Let_def)

lemma establish_reject_ip:
  "x_seamless_publickey (headers req) = HString k \<Longrightarrow> k \<noteq> [] \<Longrightarrow>
   \<not> js_not_string (host (headers req)) \<Longrightarrow>
   js_not_string (nullish_coalesce (optional_toString (x_forwarded_for (headers req)))
                    (remoteAddress req)) \<Longrightarrow>
   handleHTTPEstablishRequest newId req s =
     (Inr \<lparr>status = 400, body = ''Unable to determine IP address''\<rparr>, s)"
  by (simp add: handleHTTPEstablishRequest_def Let_def)

lemma establish_accepted:
  "x_seamless_publickey (headers req) = HString k \<Longrightarrow> k \<noteq> [] \<Longrightarrow>
   host (headers req) = Some h \<Longrightarrow> h \<noteq> [] \<Longrightarrow>
   nullish_coalesce (optional_toString (x_forwarded_for (headers req))) (remoteAddress req)
     = Some i \<Longrightarrow> i \<noteq> [] \<Longrightarrow>
   handleHTTPEstablishRequest newId req s =
     (case handleNewConnection None h i (Some \<lparr>key = k, type = ''ecdsa''\<rparr>) newId s of
        (Inl e, s') \<Rightarrow> (Inl e, s')
      | (Inr connection, s') \<Rightarrow>
          (Inr \<lparr>status = 200, body = JSON_stringify [(''connectionId'', conn_id connection)]\<rparr>,
           s'))"
  by (simp add: handleHTTPEstablishRequest_def Let_def split: prod.splits sum.splits)

lemma js_not_string_iff: "(\<not> js_not_string v) = (\<exists>x. v = Some x \<and> x \<noteq> [])"
  by (cases v) simp_all

text \<open>Every connection an establish request constructs has the ip the handler computed.\<close>

lemma establish_new_connection_ip:
  assumes "New c \<in> set (trace (snd (handleHTTPEstablishRequest newId req s)))"
      and "New c \<notin> set (trace s)"
  shows "nullish_coalesce (optional_toString (x_forwarded_for (headers req))) (remoteAddress req)
           = Some (ip c)"
proof (cases "js_not (x_seamless_publickey (headers req))
                \<or> typeof (x_seamless_publickey (headers req)) \<noteq> ''string''")
  case True
  with assms show ?thesis
    by (simp add: establish_reject_publickey)
next
  case False
  then obtain k where k: "x_seamless_publickey (headers req) = HString k" "k \<noteq> []"
    using publickey_passes by blast
  show ?thesis
  proof (cases "js_not_string (host (headers req))")
    case True
    with assms k show ?thesis
      by (simp add: establish_reject_hostname)
  next
    case nh: False
    then obtain h where h: "host (headers req) = Some h" "h \<noteq> []"
      using js_not_string_iff by blast
    show ?thesis
    proof (cases "js_not_string (nullish_coalesce
                    (optional_toString (x_forwarded_for (headers req))) (remoteAddress req))")
      case True
      with assms k nh show ?thesis
        by (simp add: establish_reject_ip)
    next
      case False
      then obtain i where i: "nullish_coalesce
          (optional_toString (x_forwarded_for (headers req))) (remoteAddress req) = Some i"
          "i \<noteq> []"
        using js_not_string_iff by blast
      have res: "handleHTTPEstablishRequest newId req s =
         (case handleNewConnection None h i (Some \<lparr>key = k, type = ''ecdsa''\<rparr>) newId s of
            (Inl e, s') \<Rightarrow> (Inl e, s')
          | (Inr connection, s') \<Rightarrow>
              (Inr \<lparr>status = 200, body = JSON_stringify [(''connectionId'', conn_id connection)]\<rparr>,
               s'))"
        using k h i by (rule establish_accepted)
      have "c = MoopsyConnection_new None h i (Some \<lparr>key = k, type = ''ecdsa''\<rparr>) newId"
      proof (cases "js_in newId (connections s)")
        case True
        with assms res show ?thesis
          by (simp add: handleNewConnection_collision emit_simps)
      next
        case False
        with assms res show ?thesis
          by (simp add: handleNewConnection_fresh)
      qed
      with i show ?thesis
        by (simp add: ip_new)
    qed
  qed
qed

subsection \<open>C3: the response to a successful establish request\<close>

text \<open>
  C3, as stated, promises a 200 response to every establish request that passes
  validation. It fails when the generated id is already in the registry: the request
  below is valid, the id \<open>abc\<close> is taken, and the handler's promise is rejected with the
  duplicate-id error instead of a response being sent.
\<close>

theorem C3_collision_counterexample:
  "x_seamless_publickey example_headers = HString ''pk_abc''
   \<and> host example_headers = Some ''example.com''
   \<and> x_forwarded_for example_headers = HString ''10.0.0.1''
   \<and> fst (handleHTTPEstablishRequest ''abc''
            \<lparr>headers = example_headers, remoteAddress = None\<rparr> one_connection_server)
       = Inl (Error ''Tried to add new connection with duplicate id abc'')"
  by (simp add: example_headers_def handleHTTPEstablishRequest_def Let_def
        handleNewConnection_def one_connection_server_def js_in_def emit_def
        MoopsyConnection_new_def)

text \<open>
  C3, amended. For every HTTP establish request that passes validation (the public key
  is a non-empty string, hostname and ip are determined and non-empty) and whose freshly
  generated id is not already a property of the registry, the handler responds with
  status 200 and the body \<open>JSON.stringify({connectionId: id})\<close> for the id of the
  connection it created, and that connection is registered under that id.
\<close>

theorem C3_establish_success:
  assumes "x_seamless_publickey (headers req) = HString k" and "k \<noteq> []"
      and "host (headers req) = Some h" and "h \<noteq> []"
      and "nullish_coalesce (optional_toString (x_forwarded_for (headers req)))
             (remoteAddress req) = Some i" and "i \<noteq> []"
      and "\<not> js_in newId (connections s)"
  shows "\<exists>c s'. handleHTTPEstablishRequest newId req s =
                  (Inr \<lparr>status = 200, body = JSON_stringify [(''connectionId'', conn_id c)]\<rparr>, s')
              \<and> c = MoopsyConnection_new None h i (Some \<lparr>key = k, type = ''ecdsa''\<rparr>) newId
              \<and> conn_id c = newId
              \<and> connections s' (conn_id c) = Some c
              \<and> js_get (connections s') (conn_id c) = Own c
              \<and> New c \<in> set (trace s')"
proof -
  let ?c = "MoopsyConnection_new None h i (Some \<lparr>key = k, type = ''ecdsa''\<rparr>) newId"
  let ?s' = "\<lparr>connections = (connections s)(newId \<mapsto> ?c),
             trace = trace s @ [New ?c, OnDisconnect newId (DeleteConnection newId)]\<rparr>"
  have "handleNewConnection None h i (Some \<lparr>key = k, type = ''ecdsa''\<rparr>) newId s = (Inr ?c, ?s')"
    using assms(7) by (rule handleNewConnection_fresh)
  then have "handleHTTPEstablishRequest newId req s =
               (Inr \<lparr>status = 200, body = JSON_stringify [(''connectionId'', conn_id ?c)]\<rparr>, ?s')"
    using establish_accepted [OF assms(1-6), of newId s] by simp
  moreover have "conn_id ?c = newId"
    by (rule conn_id_new)
  moreover have "connections ?s' (conn_id ?c) = Some ?c"
    by (simp add: conn_id_new)
  moreover have "js_get (connections ?s') (conn_id ?c) = Own ?c"
    by (simp add: conn_id_new js_get_def)
  moreover have "New ?c \<in> set (trace ?s')"
    by simp
  ultimately show ?thesis
    by blast
qed

text \<open>
  Scenario A of the specification: an empty registry, the id \<open>Zx81\<close>; the body is
  \<open>{"connectionId":"Zx81"}\<close>.
\<close>

theorem C3_establish_success_witness:
  "x_seamless_publickey (headers \<lparr>headers = example_headers, remoteAddress = None\<rparr>)
     = HString ''pk_abc''
   \<and> host (headers \<lparr>headers = example_headers, remoteAddress = None\<rparr>) = Some ''example.com''
   \<and> nullish_coalesce (optional_toString (x_forwarded_for
         (headers \<lparr>headers = example_headers, remoteAddress = None\<rparr>)))
         (remoteAddress \<lparr>headers = example_headers, remoteAddress = None\<rparr>) = Some ''10.0.0.1''
   \<and> \<not> js_in ''Zx81'' (connections empty_server)
   \<and> (\<exists>s'. handleHTTPEstablishRequest ''Zx81''
               \<lparr>headers = example_headers, remoteAddress = None\<rparr> empty_server
             = (Inr \<lparr>status = 200,
                     body = ''{'' @ [CHR 0x22] @ ''connectionId'' @ [CHR 0x22] @ '':''
                              @ [CHR 0x22] @ ''Zx81'' @ [CHR 0x22] @ ''}''\<rparr>, s')
           \<and> connections s' ''Zx81''
               = Some (MoopsyConnection_new None ''example.com'' ''10.0.0.1''
                         (Some \<lparr>key = ''pk_abc'', type = ''ecdsa''\<rparr>) ''Zx81''))"
proof -
  let ?req = "\<lparr>headers = example_headers, remoteAddress = None\<rparr>"
  have pk: "x_seamless_publickey (headers ?req) = HString ''pk_abc''"
    by (simp add: example_headers_def)
  have hn: "host (headers ?req) = Some ''example.com''"
    by (simp add: example_headers_def)
  have ipv: "nullish_coalesce (optional_toString (x_forwarded_for (headers ?req)))
               (remoteAddress ?req) = Some ''10.0.0.1''"
    by (simp add: example_headers_def)
  have fresh: "\<not> js_in ''Zx81'' (connections empty_server)"
    by (simp add: js_in_def empty_server_def Object_prototype_keys_def)
  have json: "JSON_stringify [(''connectionId'', ''Zx81'')]
                = ''{'' @ [CHR 0x22] @ ''connectionId'' @ [CHR 0x22] @ '':''
                    @ [CHR 0x22] @ ''Zx81'' @ [CHR 0x22] @ ''}''"
    by (simp add: JSON_stringify_def QuoteJSONString_def QuoteJSONChar_def)
  from C3_establish_success [OF pk _ hn _ ipv _ fresh]
  obtain c s' where
    "handleHTTPEstablishRequest ''Zx81'' ?req empty_server =
       (Inr \<lparr>status = 200, body = JSON_stringify [(''connectionId'', conn_id c)]\<rparr>, s')"
    "c = MoopsyConnection_new None ''example.com'' ''10.0.0.1''
           (Some \<lparr>key = ''pk_abc'', type = ''ecdsa''\<rparr>) ''Zx81''"
    "conn_id c = ''Zx81''"
    "connections s' (conn_id c) = Some c"
    by auto
  with json have "\<exists>s'. handleHTTPEstablishRequest ''Zx81'' ?req empty_server
             = (Inr \<lparr>status = 200,
                     body = ''{'' @ [CHR 0x22] @ ''connectionId'' @ [CHR 0x22] @ '':''
                              @ [CHR 0x22] @ ''Zx81'' @ [CHR 0x22] @ ''}''\<rparr>, s')
           \<and> connections s' ''Zx81''
               = Some (MoopsyConnection_new None ''example.com'' ''10.0.0.1''
                         (Some \<lparr>key = ''pk_abc'', type = ''ecdsa''\<rparr>) ''Zx81'')"
    by auto
  with pk hn ipv fresh show ?thesis
    by blast
qed


subsection \<open>C6: the order of the checks of an establish request\<close>

text \<open>
  C6, as stated, has the hostname checked first and the public key last. The handler
  checks the public key first: a request with no header at all is answered
  "Missing x-seamless-publickey", not "Unable to determine hostname".
\<close>

theorem C6_order_counterexample:
  "host no_headers = None
   \<and> x_seamless_publickey no_headers = HUndefined
   \<and> fst (handleHTTPEstablishRequest ''id1''
            \<lparr>headers = no_headers, remoteAddress = Some ''10.0.0.1''\<rparr> empty_server)
       = Inr \<lparr>status = 400, body = ''Missing x-seamless-publickey''\<rparr>
   \<and> fst (handleHTTPEstablishRequest ''id1''
            \<lparr>headers = no_headers, remoteAddress = Some ''10.0.0.1''\<rparr> empty_server)
       \<noteq> Inr \<lparr>status = 400, body = ''Unable to determine hostname''\<rparr>"
  by (simp add: no_headers_def handleHTTPEstablishRequest_def Let_def)

text \<open>
  C6, amended. The HTTP establish handler validates the public-key header first, then
  the hostname, then the ip: a request whose public key is missing or not a non-empty
  string is answered "Missing x-seamless-publickey" whatever its hostname and ip are (in
  particular when the hostname is missing too); a request with a valid public key and no
  hostname is answered "Unable to determine hostname" whatever its ip is; a request with
  a valid public key and hostname and no ip is answered "Unable to determine IP address".
  Each of the three is a 400 and leaves the server as it was.
\<close>

theorem C6_validation_order:
  "(js_not (x_seamless_publickey (headers req))
      \<or> typeof (x_seamless_publickey (headers req)) \<noteq> ''string''
    \<longrightarrow> handleHTTPEstablishRequest newId req s
          = (Inr \<lparr>status = 400, body = ''Missing x-seamless-publickey''\<rparr>, s))
   \<and> (x_seamless_publickey (headers req) = HString k \<and> k \<noteq> []
        \<and> js_not_string (host (headers req))
      \<longrightarrow> handleHTTPEstablishRequest newId req s
            = (Inr \<lparr>status = 400, body = ''Unable to determine hostname''\<rparr>, s))
   \<and> (x_seamless_publickey (headers req) = HString k \<and> k \<noteq> []
        \<and> \<not> js_not_string (host (headers req))
        \<and> js_not_string (nullish_coalesce (optional_toString (x_forwarded_for (headers req)))
                            (remoteAddress req))
      \<longrightarrow> handleHTTPEstablishRequest newId req s
            = (Inr \<lparr>status = 400, body = ''Unable to determine IP address''\<rparr>, s))"
proof (intro conjI impI)
  assume "js_not (x_seamless_publickey (headers req))
            \<or> typeof (x_seamless_publickey (headers req)) \<noteq> ''string''"
  then show "handleHTTPEstablishRequest newId req s
               = (Inr \<lparr>status = 400, body = ''Missing x-seamless-publickey''\<rparr>, s)"
    by (rule establish_reject_publickey)
next
  assume "x_seamless_publickey (headers req) = HString k \<and> k \<noteq> []
            \<and> js_not_string (host (headers req))"
  then show "handleHTTPEstablishRequest newId req s
               = (Inr \<lparr>status = 400, body = ''Unable to determine hostname''\<rparr>, s)"
    by (simp add: establish_reject_hostname)
next
  assume "x_seamless_publickey (headers req) = HString k \<and> k \<noteq> []
            \<and> \<not> js_not_string (host (headers req))
            \<and> js_not_string (nullish_coalesce (optional_toString (x_forwarded_for (headers req)))
                                (remoteAddress req))"
  then show "handleHTTPEstablishRequest newId req s
               = (Inr \<lparr>status = 400, body = ''Unable to determine IP address''\<rparr>, s)"
    by (simp add: establish_reject_ip)
qed

text \<open>
  Three requests: one without public key and hostname, one with a public key and no
  hostname (and no ip), one with public key and hostname and no ip.
\<close>

theorem C6_validation_order_witness:
  "handleHTTPEstablishRequest ''id1'' \<lparr>headers = no_headers, remoteAddress = None\<rparr> empty_server
     = (Inr \<lparr>status = 400, body = ''Missing x-seamless-publickey''\<rparr>, empty_server)
   \<and> handleHTTPEstablishRequest ''id1''
       \<lparr>headers = no_headers\<lparr>x_seamless_publickey := HString ''pk_abc''\<rparr>, remoteAddress = None\<rparr>
       empty_server
     = (Inr \<lparr>status = 400, body = ''Unable to determine hostname''\<rparr>, empty_server)
   \<and> handleHTTPEstablishRequest ''id1''
       \<lparr>headers = no_headers\<lparr>x_seamless_publickey := HString ''pk_abc'', host := Some ''example.com''\<rparr>,
        remoteAddress = None\<rparr> empty_server
     = (Inr \<lparr>status = 400, body = ''Unable to determine IP address''\<rparr>, empty_server)"
  using C6_validation_order [where req = "\<lparr>headers = no_headers, remoteAddress = None\<rparr>"
          and k = "''pk_abc''" and newId = "''id1''" and s = empty_server]
        C6_validation_order [where req = "\<lparr>headers = no_headers\<lparr>x_seamless_publickey := HString ''pk_abc''\<rparr>,
            remoteAddress = None\<rparr>" and k = "''pk_abc''" and newId = "''id1''" and s = empty_server]
        C6_validation_order [where req = "\<lparr>headers = no_headers\<lparr>x_seamless_publickey := HString ''pk_abc'',
            host := Some ''example.com''\<rparr>, remoteAddress = None\<rparr>" and k = "''pk_abc''"
          and newId = "''id1''" and s = empty_server]
  by (simp add: no_headers_def)

subsection \<open>C7: where the ip of an establish request comes from\<close>

text \<open>
  C7. Every connection that an HTTP establish request constructs has as its ip the value
  of the header \<open>x-forwarded-for\<close> when the header is present (a string as it is, an array
  joined by commas), and the peer address \<open>req.connection.remoteAddress\<close> when the header
  is absent. When the header is absent and there is no peer address, the response is a
  400 and the server is left as it was: no connection is constructed.
\<close>

theorem C7_ip_source:
  "(\<forall>c. New c \<in> set (trace (snd (handleHTTPEstablishRequest newId req s)))
         \<and> New c \<notin> set (trace s)
       \<longrightarrow> (case x_forwarded_for (headers req) of
              HUndefined \<Rightarrow> remoteAddress req = Some (ip c)
            | HString v \<Rightarrow> ip c = v
            | HArray vs \<Rightarrow> ip c = join '','' vs))
   \<and> (x_forwarded_for (headers req) = HUndefined \<and> remoteAddress req = None
      \<longrightarrow> (\<exists>r. handleHTTPEstablishRequest newId req s = (Inr r, s) \<and> status r = 400))"
proof (intro conjI allI impI)
  fix c
  assume "New c \<in> set (trace (snd (handleHTTPEstablishRequest newId req s)))
            \<and> New c \<notin> set (trace s)"
  then have "nullish_coalesce (optional_toString (x_forwarded_for (headers req)))
               (remoteAddress req) = Some (ip c)"
    using establish_new_connection_ip by blast
  then show "case x_forwarded_for (headers req) of
               HUndefined \<Rightarrow> remoteAddress req = Some (ip c)
             | HString v \<Rightarrow> ip c = v
             | HArray vs \<Rightarrow> ip c = join '','' vs"
    by (cases "x_forwarded_for (headers req)") auto
next
  assume none: "x_forwarded_for (headers req) = HUndefined \<and> remoteAddress req = None"
  show "\<exists>r. handleHTTPEstablishRequest newId req s = (Inr r, s) \<and> status r = 400"
  proof (cases "js_not (x_seamless_publickey (headers req))
                  \<or> typeof (x_seamless_publickey (headers req)) \<noteq> ''string''")
    case True
    then show ?thesis
      by (simp add: establish_reject_publickey)
  next
    case False
    then obtain k where k: "x_seamless_publickey (headers req) = HString k" "k \<noteq> []"
      using publickey_passes by blast
    show ?thesis
    proof (cases "js_not_string (host (headers req))")
      case True
      with k show ?thesis
        by (simp add: establish_reject_hostname)
    next
      case False
      with k none show ?thesis
        by (simp add: establish_reject_ip)
    qed
  qed
qed

text \<open>
  The connection of a request with the header, of one without it, and the rejection of
  one with neither.
\<close>

theorem C7_ip_source_witness:
  "New (MoopsyConnection_new None ''example.com'' ''10.0.0.1''
          (Some \<lparr>key = ''pk_abc'', type = ''ecdsa''\<rparr>) ''id1'')
     \<in> set (trace (snd (handleHTTPEstablishRequest ''id1''
                 \<lparr>headers = example_headers, remoteAddress = Some ''192.168.0.7''\<rparr> empty_server)))
   \<and> ip (MoopsyConnection_new None ''example.com'' ''10.0.0.1''
          (Some \<lparr>key = ''pk_abc'', type = ''ecdsa''\<rparr>) ''id1'') = ''10.0.0.1''
   \<and> New (MoopsyConnection_new None ''example.com'' ''192.168.0.7''
          (Some \<lparr>key = ''pk_abc'', type = ''ecdsa''\<rparr>) ''id1'')
     \<in> set (trace (snd (handleHTTPEstablishRequest ''id1''
                 \<lparr>headers = example_headers\<lparr>x_forwarded_for := HUndefined\<rparr>,
                  remoteAddress = Some ''192.168.0.7''\<rparr> empty_server)))
   \<and> Some (ip (MoopsyConnection_new None ''example.com'' ''192.168.0.7''
          (Some \<lparr>key = ''pk_abc'', type = ''ecdsa''\<rparr>) ''id1'')) = Some ''192.168.0.7''
   \<and> (\<exists>r. handleHTTPEstablishRequest ''id1''
              \<lparr>headers = example_headers\<lparr>x_forwarded_for := HUndefined\<rparr>, remoteAddress = None\<rparr>
              empty_server = (Inr r, empty_server) \<and> status r = 400)"
proof -
  let ?c1 = "MoopsyConnection_new None ''example.com'' ''10.0.0.1''
               (Some \<lparr>key = ''pk_abc'', type = ''ecdsa''\<rparr>) ''id1''"
  let ?c2 = "MoopsyConnection_new None ''example.com'' ''192.168.0.7''
               (Some \<lparr>key = ''pk_abc'', type = ''ecdsa''\<rparr>) ''id1''"
  let ?r1 = "\<lparr>headers = example_headers, remoteAddress = Some ''192.168.0.7''\<rparr>"
  let ?r2 = "\<lparr>headers = example_headers\<lparr>x_forwarded_for := HUndefined\<rparr>,
             remoteAddress = Some ''192.168.0.7''\<rparr>"
  let ?r3 = "\<lparr>headers = example_headers\<lparr>x_forwarded_for := HUndefined\<rparr>, remoteAddress = None\<rparr>"
  have fresh: "\<not> js_in ''id1'' (connections empty_server)"
    by (simp add: js_in_def empty_server_def Object_prototype_keys_def)
  have n1: "New ?c1 \<in> set (trace (snd (handleHTTPEstablishRequest ''id1'' ?r1 empty_server)))"
    using fresh
    by (simp add: handleHTTPEstablishRequest_def Let_def example_headers_def
          handleNewConnection_fresh)
  have n2: "New ?c2 \<in> set (trace (snd (handleHTTPEstablishRequest ''id1'' ?r2 empty_server)))"
    using fresh
    by (simp add: handleHTTPEstablishRequest_def Let_def example_headers_def
          handleNewConnection_fresh)
  have old: "New ?c1 \<notin> set (trace empty_server)" "New ?c2 \<notin> set (trace empty_server)"
    by (simp_all add: empty_server_def)
  have x1: "x_forwarded_for (headers ?r1) = HString ''10.0.0.1''"
    by (simp add: example_headers_def)
  have x2: "x_forwarded_for (headers ?r2) = HUndefined" "remoteAddress ?r2 = Some ''192.168.0.7''"
    by simp_all
  have x3: "x_forwarded_for (headers ?r3) = HUndefined \<and> remoteAddress ?r3 = None"
    by simp
  have "ip ?c1 = ''10.0.0.1''"
    using C7_ip_source [of "''id1''" ?r1 empty_server] n1 old(1) x1 by auto
  moreover have "Some (ip ?c2) = Some ''192.168.0.7''"
    using C7_ip_source [of "''id1''" ?r2 empty_server] n2 old(2) x2 by auto
  moreover have "\<exists>r. handleHTTPEstablishRequest ''id1'' ?r3 empty_server = (Inr r, empty_server)
                     \<and> status r = 400"
    using C7_ip_source [of "''id1''" ?r3 empty_server] x3 by blast
  ultimately show ?thesis
    using n1 n2 by blast
qed


subsection \<open>Facts about \<open>handleHTTPMessageRequest\<close> shared by the proofs\<close>

lemma message_reject_connection_id:
  "js_not (x_seamless_connection_id (headers req))
     \<or> typeof (x_seamless_connection_id (headers req)) \<noteq> ''string'' \<Longrightarrow>
   handleHTTPMessageRequest env req s = (Inr \<lparr>status = 400, body = ''Missing connectionId''\<rparr>, s)"
  by (simp add: handleHTTPMessageRequest_def Let_def)

lemma message_not_found:
  "x_seamless_connection_id (headers req) = HString cid \<Longrightarrow> cid \<noteq> [] \<Longrightarrow>
   \<not> js_in cid (connections s) \<Longrightarrow>
   handleHTTPMessageRequest env req s = (Inr \<lparr>status = 404, body = ''Connection not found''\<rparr>, s)"
  by (simp add: handleHTTPMessageRequest_def Let_def js_get_def js_in_def split: option.splits)

lemma message_parse_throws:
  "x_seamless_connection_id (headers req) = HString cid \<Longrightarrow> cid \<noteq> [] \<Longrightarrow>
   js_in cid (connections s) \<Longrightarrow> parseRequestBody env req = Inl e \<Longrightarrow>
   handleHTTPMessageRequest env req s = (Inl e, s)"
  by (simp add: handleHTTPMessageRequest_def Let_def js_get_def js_in_def split: option.splits)

lemma message_routed:
  "x_seamless_connection_id (headers req) = HString cid \<Longrightarrow> cid \<noteq> [] \<Longrightarrow>
   js_in cid (connections s) \<Longrightarrow> parseRequestBody env req = Inr rawData \<Longrightarrow>
   handleHTTPMessageRequest env req s =
     (case try_block env (js_get (connections s) cid) rawData s of
        (Inl e, s') \<Rightarrow> catch_block e s'
      | (Inr r, s') \<Rightarrow> (Inr r, s'))"
  by (simp add: handleHTTPMessageRequest_def Let_def js_get_def js_in_def split: option.splits)

lemma prototype_keys_nonempty: "cid \<in> set Object_prototype_keys \<Longrightarrow> cid \<noteq> []"
  by (auto simp add: Object_prototype_keys_def)

text \<open>
  An id that names an inherited property of the registry and no connection: the lookup
  is truthy, the call of the absent method throws, and the answer is the generic 500.
\<close>

lemma message_inherited_key:
  assumes "x_seamless_connection_id (headers req) = HString cid"
      and "cid \<in> set Object_prototype_keys"
      and "connections s cid = None"
      and "parseRequestBody env req = Inr rawData"
  shows "handleHTTPMessageRequest env req s =
           (Inr \<lparr>status = 500, body = ''Internal Server Error''\<rparr>, s)"
proof -
  have ne: "cid \<noteq> []"
    using assms(2) by (rule prototype_keys_nonempty)
  have inh: "js_in cid (connections s)" "js_get (connections s) cid = Inherited"
    using assms(2,3) by (simp_all add: js_in_def js_get_def)
  have "try_block env Inherited rawData s =
          (Inl (TypeError ''connection.handleIncomingHTTPRequest is not a function''), s)"
    by (simp add: try_block_def)
  then show ?thesis
    using message_routed [OF assms(1) ne inh(1) assms(4)] inh(2)
    by (simp add: catch_block_def)
qed

subsection \<open>C4: message requests without a usable connection id\<close>

text \<open>
  C4. The claim holds for a missing or non-string id (400, server unchanged) and for an
  id that is no property of the registry at all (404, server unchanged): these are
  \<open>message_reject_connection_id\<close> and \<open>message_not_found\<close>. It fails for an id that is
  not registered but names a property every object inherits, such as \<open>constructor\<close>: with
  an empty registry the handler does not answer 404, it answers 500.
\<close>

theorem C4_constructor_id_gives_500:
  "handleHTTPMessageRequest throwing_collaborators
     \<lparr>headers = no_headers\<lparr>x_seamless_connection_id := HString ''constructor''\<rparr>,
      remoteAddress = Some ''10.0.0.1''\<rparr> empty_server
   = (Inr \<lparr>status = 500, body = ''Internal Server Error''\<rparr>, empty_server)"
  by (simp add: handleHTTPMessageRequest_def Let_def js_get_def empty_server_def
        Object_prototype_keys_def try_block_def catch_block_def throwing_collaborators_def)

subsection \<open>C5: what is answered when the inbound handler throws\<close>




subsection \<open>Facts about the headers Node delivers\<close>

lemma join_two_nonempty: "join sep (v1 # v2 # vs) \<noteq> [] \<or> sep = []"
  by (cases sep) simp_all

lemma joined_header_repeated:
  "header_values name lines = v1 # v2 # vs \<Longrightarrow>
   joined_header name lines = HString (join '', '' (v1 # v2 # vs))
   \<and> join '', '' (v1 # v2 # vs) \<noteq> []"
  using join_two_nonempty [of "'', ''" v1 v2 vs] by (simp add: joined_header_def)

lemma joined_header_typeof: "typeof (joined_header name lines) \<noteq> ''object''"
  by (simp add: joined_header_def split: list.splits)

lemma empty_host_values:
  "header_values ''host'' empty_host_lines = [[]]"
  "header_values ''x-forwarded-for'' empty_host_lines = []"
  "header_values ''x-seamless-publickey'' empty_host_lines = []"
  "header_values ''x-seamless-connection-id'' empty_host_lines = []"
  by code_simp+

lemma empty_host_headers:
  "IncomingMessage_headers empty_host_lines
     = \<lparr>host = Some [], x_forwarded_for = HUndefined,
        x_seamless_publickey = HUndefined, x_seamless_connection_id = HUndefined\<rparr>"
  by (simp add: IncomingMessage_headers_def first_header_def joined_header_def empty_host_values)

lemma repeated_header_values:
  "header_values ''host'' repeated_header_lines = [''example.com'']"
  "header_values ''x-forwarded-for'' repeated_header_lines = [''10.0.0.1'']"
  "header_values ''x-seamless-publickey'' repeated_header_lines = [''pk_a'', ''pk_b'']"
  "header_values ''x-seamless-connection-id'' repeated_header_lines = [''abc'', ''abc'']"
  by code_simp+

lemma repeated_headers:
  "IncomingMessage_headers repeated_header_lines
     = \<lparr>host = Some ''example.com'', x_forwarded_for = HString ''10.0.0.1'',
        x_seamless_publickey = HString ''pk_a, pk_b'',
        x_seamless_connection_id = HString ''abc, abc''\<rparr>"
  by (simp add: IncomingMessage_headers_def first_header_def joined_header_def
        repeated_header_values)

subsection \<open>C8: a socket without a hostname\<close>

text \<open>
  When the handshake of a new socket has no \<open>Host\<close> header, the handler writes
  \<open>error:missing-hostname\<close> to the socket and then disconnects it, and does nothing
  else: no connection is constructed and the registry is unchanged.
\<close>

lemma socket_without_host_header:
  assumes "host (handshake_headers socket) = None"
  shows "handleNewSocketIOConnection determineIPFromSocket newId socket s =
           (Inr (), s\<lparr>trace := trace s @ [SocketWrite (sid socket) ''error:missing-hostname'',
                                          SocketDisconnect (sid socket)]\<rparr>)
         \<and> connections (snd (handleNewSocketIOConnection determineIPFromSocket newId socket s))
             = connections s
         \<and> filter is_New (trace (snd (handleNewSocketIOConnection determineIPFromSocket newId socket s)))
             = filter is_New (trace s)"
  using assms by (simp add: handleNewSocketIOConnection_def emit_def)

text \<open>
  C8. The claim fails for a handshake that carries a \<open>Host\<close> header with an empty value.
  That socket has no hostname either (the HTTP handler rejects the same header with
  "Unable to determine hostname"), but the guard \<open>hostname == null\<close> lets it pass: nothing
  is written to the socket, it is not disconnected, and a connection with the hostname
  \<open>""\<close> is constructed and registered.
\<close>

theorem C8_empty_host_registers_connection:
  "host (IncomingMessage_headers empty_host_lines) = Some []
   \<and> handleNewSocketIOConnection (\<lambda>sock. ''10.0.0.1'') ''id1''
       \<lparr>sid = ''s1'', handshake_headers = IncomingMessage_headers empty_host_lines\<rparr> empty_server
     = (Inr (),
        \<lparr>connections =
           [''id1'' \<mapsto> MoopsyConnection_new
              (Some \<lparr>sid = ''s1'', handshake_headers = IncomingMessage_headers empty_host_lines\<rparr>)
              [] ''10.0.0.1'' None ''id1''],
         trace =
           [New (MoopsyConnection_new
              (Some \<lparr>sid = ''s1'', handshake_headers = IncomingMessage_headers empty_host_lines\<rparr>)
              [] ''10.0.0.1'' None ''id1''),
            OnDisconnect ''id1'' (DeleteConnection ''id1'')]\<rparr>)
   \<and> fst (handleHTTPEstablishRequest ''id1''
       \<lparr>headers = (IncomingMessage_headers empty_host_lines)
                     \<lparr>x_seamless_publickey := HString ''pk_abc''\<rparr>,
        remoteAddress = Some ''10.0.0.1''\<rparr> empty_server)
     = Inr \<lparr>status = 400, body = ''Unable to determine hostname''\<rparr>"
proof -
  have h: "host (IncomingMessage_headers empty_host_lines) = Some []"
    by (simp add: empty_host_headers)
  have fresh: "\<not> js_in ''id1'' (connections empty_server)"
    by (simp add: js_in_def empty_server_def Object_prototype_keys_def)
  have sock: "handleNewSocketIOConnection (\<lambda>sock. ''10.0.0.1'') ''id1''
       \<lparr>sid = ''s1'', handshake_headers = IncomingMessage_headers empty_host_lines\<rparr> empty_server
     = (Inr (),
        \<lparr>connections =
           [''id1'' \<mapsto> MoopsyConnection_new
              (Some \<lparr>sid = ''s1'', handshake_headers = IncomingMessage_headers empty_host_lines\<rparr>)
              [] ''10.0.0.1'' None ''id1''],
         trace =
           [New (MoopsyConnection_new
              (Some \<lparr>sid = ''s1'', handshake_headers = IncomingMessage_headers empty_host_lines\<rparr>)
              [] ''10.0.0.1'' None ''id1''),
            OnDisconnect ''id1'' (DeleteConnection ''id1'')]\<rparr>)"
    using h fresh
    by (simp add: handleNewSocketIOConnection_def Let_def handleNewConnection_fresh
          empty_server_def)
  have http: "fst (handleHTTPEstablishRequest ''id1''
       \<lparr>headers = (IncomingMessage_headers empty_host_lines)
                     \<lparr>x_seamless_publickey := HString ''pk_abc''\<rparr>,
        remoteAddress = Some ''10.0.0.1''\<rparr> empty_server)
     = Inr \<lparr>status = 400, body = ''Unable to determine hostname''\<rparr>"
    using h by (simp add: establish_reject_hostname)
  from h sock http show ?thesis
    by blast
qed

subsection \<open>C9: a returned connection is registered, and its removal is idempotent\<close>

text \<open>
  C9. When \<open>handleNewConnection\<close> returns a connection, the registry holds that
  connection under its id, and the last thing the call did was to register on it a
  disconnect hook, the closure that deletes that id. Running the hook removes that entry
  and no other (the registry is again what it was before the call); running it a second
  time, or on any server whose registry has no such entry, changes nothing and does not
  throw.
\<close>

theorem C9_registered_and_removable:
  assumes "handleNewConnection rawConn h i pk newId s = (Inr c, s')"
  shows "connections s' (conn_id c) = Some c
         \<and> js_get (connections s') (conn_id c) = Own c
         \<and> trace s' = trace s @ [New c, OnDisconnect (conn_id c) (DeleteConnection (conn_id c))]
         \<and> connections (run_hook (DeleteConnection (conn_id c)) s') (conn_id c) = None
         \<and> (\<forall>k. k \<noteq> conn_id c \<longrightarrow>
               connections (run_hook (DeleteConnection (conn_id c)) s') k = connections s' k)
         \<and> connections (run_hook (DeleteConnection (conn_id c)) s') = connections s
         \<and> run_hook (DeleteConnection (conn_id c)) (run_hook (DeleteConnection (conn_id c)) s')
             = run_hook (DeleteConnection (conn_id c)) s'
         \<and> (\<forall>t. connections t (conn_id c) = None \<longrightarrow>
               run_hook (DeleteConnection (conn_id c)) t = t)"
proof -
  have fresh: "\<not> js_in newId (connections s)"
  proof
    assume "js_in newId (connections s)"
    then have "fst (handleNewConnection rawConn h i pk newId s)
                 = Inl (Error (''Tried to add new connection with duplicate id '' @ newId))"
      by (simp add: handleNewConnection_collision)
    with assms show False
      by simp
  qed
  then have none: "connections s newId = None"
    by (rule not_js_in_None)
  let ?c = "MoopsyConnection_new rawConn h i pk newId"
  from fresh assms have c: "c = ?c"
    and s': "s' = \<lparr>connections = (connections s)(newId \<mapsto> ?c),
                   trace = trace s @ [New ?c, OnDisconnect newId (DeleteConnection newId)]\<rparr>"
    by (auto simp add: handleNewConnection_fresh)
  have cid: "conn_id c = newId"
    using c by (simp add: conn_id_new)
  have 1: "connections s' (conn_id c) = Some c"
    using c s' cid by simp
  then have 2: "js_get (connections s') (conn_id c) = Own c"
    by (simp add: js_get_def)
  have 3: "trace s' = trace s @ [New c, OnDisconnect (conn_id c) (DeleteConnection (conn_id c))]"
    using c s' cid by simp
  have 4: "connections (run_hook (DeleteConnection (conn_id c)) s') (conn_id c) = None"
    by (simp add: run_hook_def js_delete_def)
  have 5: "\<forall>k. k \<noteq> conn_id c \<longrightarrow>
             connections (run_hook (DeleteConnection (conn_id c)) s') k = connections s' k"
    by (simp add: run_hook_def js_delete_def)
  have 6: "connections (run_hook (DeleteConnection (conn_id c)) s') = connections s"
    using none s' cid by (simp add: run_hook_def js_delete_def fun_upd_idem)
  have 7: "run_hook (DeleteConnection (conn_id c)) (run_hook (DeleteConnection (conn_id c)) s')
             = run_hook (DeleteConnection (conn_id c)) s'"
    by (simp add: run_hook_def js_delete_def)
  have 8: "\<forall>t. connections t (conn_id c) = None \<longrightarrow> run_hook (DeleteConnection (conn_id c)) t = t"
    by (simp add: run_hook_def js_delete_def fun_upd_idem)
  from 1 2 3 4 5 6 7 8 show ?thesis
    by blast
qed

text \<open>A socket connection \<open>xyz\<close> added to a registry that holds \<open>abc\<close>, then removed.\<close>

theorem C9_registered_and_removable_witness:
  "handleNewConnection None ''example.com'' ''10.0.0.1'' None ''xyz'' one_connection_server
     = (Inr (MoopsyConnection_new None ''example.com'' ''10.0.0.1'' None ''xyz''),
        \<lparr>connections = [''abc'' \<mapsto> example_connection,
                        ''xyz'' \<mapsto> MoopsyConnection_new None ''example.com'' ''10.0.0.1'' None ''xyz''],
         trace = [New (MoopsyConnection_new None ''example.com'' ''10.0.0.1'' None ''xyz''),
                  OnDisconnect ''xyz'' (DeleteConnection ''xyz'')]\<rparr>)
   \<and> connections (run_hook (DeleteConnection ''xyz'')
        \<lparr>connections = [''abc'' \<mapsto> example_connection,
                        ''xyz'' \<mapsto> MoopsyConnection_new None ''example.com'' ''10.0.0.1'' None ''xyz''],
         trace = [New (MoopsyConnection_new None ''example.com'' ''10.0.0.1'' None ''xyz''),
                  OnDisconnect ''xyz'' (DeleteConnection ''xyz'')]\<rparr>)
       = connections one_connection_server
   \<and> run_hook (DeleteConnection ''xyz'') one_connection_server = one_connection_server"
proof -
  let ?c = "MoopsyConnection_new None ''example.com'' ''10.0.0.1'' None ''xyz''"
  let ?s' = "\<lparr>connections = [''abc'' \<mapsto> example_connection, ''xyz'' \<mapsto> ?c],
             trace = [New ?c, OnDisconnect ''xyz'' (DeleteConnection ''xyz'')]\<rparr>"
  have fresh: "\<not> js_in ''xyz'' (connections one_connection_server)"
    by (simp add: js_in_def one_connection_server_def Object_prototype_keys_def)
  have run: "handleNewConnection None ''example.com'' ''10.0.0.1'' None ''xyz'' one_connection_server
               = (Inr ?c, ?s')"
    using fresh by (simp add: handleNewConnection_fresh one_connection_server_def)
  have absent: "connections one_connection_server (conn_id ?c) = None"
    by (simp add: one_connection_server_def conn_id_new)
  have id: "conn_id ?c = ''xyz''"
    by (rule conn_id_new)
  from C9_registered_and_removable [OF run] absent
  have "connections (run_hook (DeleteConnection (conn_id ?c)) ?s') = connections one_connection_server"
    and "run_hook (DeleteConnection (conn_id ?c)) one_connection_server = one_connection_server"
    by blast+
  with run id show ?thesis
    by simp
qed

subsection \<open>Facts about the first guard of an establish request\<close>

text \<open>A request that passes the first guard is not answered "Missing x-seamless-publickey".\<close>

lemma establish_passed_publickey:
  assumes "x_seamless_publickey (headers req) = HString k" and "k \<noteq> []"
  shows "fst (handleHTTPEstablishRequest newId req s)
           \<noteq> Inr \<lparr>status = 400, body = ''Missing x-seamless-publickey''\<rparr>"
proof (cases "js_not_string (host (headers req))")
  case True
  with assms show ?thesis
    by (simp add: establish_reject_hostname)
next
  case nh: False
  then obtain h where h: "host (headers req) = Some h" "h \<noteq> []"
    using js_not_string_iff by blast
  show ?thesis
  proof (cases "js_not_string (nullish_coalesce
                  (optional_toString (x_forwarded_for (headers req))) (remoteAddress req))")
    case True
    with assms nh show ?thesis
      by (simp add: establish_reject_ip)
  next
    case False
    then obtain i where i: "nullish_coalesce
        (optional_toString (x_forwarded_for (headers req))) (remoteAddress req) = Some i"
        "i \<noteq> []"
      using js_not_string_iff by blast
    show ?thesis
    proof (cases "js_in newId (connections s)")
      case True
      then show ?thesis
        using establish_accepted [OF assms h i, of newId s]
        by (simp add: handleNewConnection_collision)
    next
      case False
      then show ?thesis
        using establish_accepted [OF assms h i, of newId s]
        by (simp add: handleNewConnection_fresh)
    qed
  qed
qed

subsection \<open>C10: only a string is accepted as public key or connection id\<close>

text \<open>
  C10, as stated, gives as its example of a non-string value the array that sending the
  header more than once would produce, and has that request rejected with 400. Node
  delivers a header sent twice as one string, and the handlers accept it: the request
  below sends \<open>X-Seamless-PublicKey\<close> twice and is answered 200, its connection holding
  the key \<open>pk_a, pk_b\<close>; as a message request with \<open>X-Seamless-Connection-Id\<close> sent twice
  it is answered 404 for the id \<open>abc, abc\<close>, not 400.
\<close>

theorem C10_repeated_header_counterexample:
  "header_values ''x-seamless-publickey'' repeated_header_lines = [''pk_a'', ''pk_b'']
   \<and> x_seamless_publickey (IncomingMessage_headers repeated_header_lines) = HString ''pk_a, pk_b''
   \<and> handleHTTPEstablishRequest ''id1''
       \<lparr>headers = IncomingMessage_headers repeated_header_lines, remoteAddress = None\<rparr>
       empty_server
     = (Inr \<lparr>status = 200, body = JSON_stringify [(''connectionId'', ''id1'')]\<rparr>,
        \<lparr>connections =
           [''id1'' \<mapsto> MoopsyConnection_new None ''example.com'' ''10.0.0.1''
                         (Some \<lparr>key = ''pk_a, pk_b'', type = ''ecdsa''\<rparr>) ''id1''],
         trace =
           [New (MoopsyConnection_new None ''example.com'' ''10.0.0.1''
                   (Some \<lparr>key = ''pk_a, pk_b'', type = ''ecdsa''\<rparr>) ''id1''),
            OnDisconnect ''id1'' (DeleteConnection ''id1'')]\<rparr>)
   \<and> x_seamless_connection_id (IncomingMessage_headers repeated_header_lines)
       = HString ''abc, abc''
   \<and> handleHTTPMessageRequest throwing_collaborators
       \<lparr>headers = IncomingMessage_headers repeated_header_lines, remoteAddress = None\<rparr>
       one_connection_server
     = (Inr \<lparr>status = 404, body = ''Connection not found''\<rparr>, one_connection_server)"
proof -
  note hs = repeated_headers
  note vs = repeated_header_values(3)
  have fresh: "\<not> js_in ''id1'' (connections empty_server)"
    by (simp add: js_in_def empty_server_def Object_prototype_keys_def)
  have est: "handleHTTPEstablishRequest ''id1''
       \<lparr>headers = IncomingMessage_headers repeated_header_lines, remoteAddress = None\<rparr>
       empty_server
     = (Inr \<lparr>status = 200, body = JSON_stringify [(''connectionId'', ''id1'')]\<rparr>,
        \<lparr>connections =
           [''id1'' \<mapsto> MoopsyConnection_new None ''example.com'' ''10.0.0.1''
                         (Some \<lparr>key = ''pk_a, pk_b'', type = ''ecdsa''\<rparr>) ''id1''],
         trace =
           [New (MoopsyConnection_new None ''example.com'' ''10.0.0.1''
                   (Some \<lparr>key = ''pk_a, pk_b'', type = ''ecdsa''\<rparr>) ''id1''),
            OnDisconnect ''id1'' (DeleteConnection ''id1'')]\<rparr>)"
    using fresh
    by (simp add: hs handleHTTPEstablishRequest_def Let_def handleNewConnection_fresh
          conn_id_new empty_server_def)
  have unknown: "\<not> js_in ''abc, abc'' (connections one_connection_server)"
    by (simp add: js_in_def one_connection_server_def Object_prototype_keys_def)
  have msg: "handleHTTPMessageRequest throwing_collaborators
       \<lparr>headers = IncomingMessage_headers repeated_header_lines, remoteAddress = None\<rparr>
       one_connection_server
     = (Inr \<lparr>status = 404, body = ''Connection not found''\<rparr>, one_connection_server)"
    using unknown by (simp add: hs message_not_found)
  from hs vs est msg show ?thesis
    by simp
qed

text \<open>
  C10, amended. Only a string passes the first guard of either handler: an HTTP establish
  request whose value of \<open>x-seamless-publickey\<close> is not a string (it is undefined or an
  array) gets the very answer it would get without the header, a 400 that leaves the
  server as it was, and so does an HTTP message request whose value of
  \<open>x-seamless-connection-id\<close> is not a string; a request that is not answered with that 400
  carried a string. Sending a header more than once does not produce such a value: Node
  never delivers these headers as an array, it delivers a repeated header as one string,
  the values joined by a comma and a space. That string passes the guard: the establish
  request is not answered "Missing x-seamless-publickey", and the message request is
  answered 404 unless the joined string is a property of the registry.
\<close>

theorem C10_only_strings_accepted:
  "(typeof (x_seamless_publickey (headers req)) \<noteq> ''string'' \<longrightarrow>
      handleHTTPEstablishRequest newId req s
        = handleHTTPEstablishRequest newId
            (req\<lparr>headers := (headers req)\<lparr>x_seamless_publickey := HUndefined\<rparr>\<rparr>) s
      \<and> handleHTTPEstablishRequest newId req s
          = (Inr \<lparr>status = 400, body = ''Missing x-seamless-publickey''\<rparr>, s))
   \<and> (typeof (x_seamless_connection_id (headers req)) \<noteq> ''string'' \<longrightarrow>
      handleHTTPMessageRequest env req s
        = handleHTTPMessageRequest env
            (req\<lparr>headers := (headers req)\<lparr>x_seamless_connection_id := HUndefined\<rparr>\<rparr>) s
      \<and> handleHTTPMessageRequest env req s
          = (Inr \<lparr>status = 400, body = ''Missing connectionId''\<rparr>, s))
   \<and> (handleHTTPEstablishRequest newId req s
         \<noteq> (Inr \<lparr>status = 400, body = ''Missing x-seamless-publickey''\<rparr>, s)
       \<longrightarrow> (\<exists>k. x_seamless_publickey (headers req) = HString k))
   \<and> (handleHTTPMessageRequest env req s
         \<noteq> (Inr \<lparr>status = 400, body = ''Missing connectionId''\<rparr>, s)
       \<longrightarrow> (\<exists>k. x_seamless_connection_id (headers req) = HString k))
   \<and> typeof (x_seamless_publickey (IncomingMessage_headers lines)) \<noteq> ''object''
   \<and> typeof (x_seamless_connection_id (IncomingMessage_headers lines)) \<noteq> ''object''
   \<and> (\<forall>v1 v2 vs. header_values ''x-seamless-publickey'' lines = v1 # v2 # vs \<longrightarrow>
         x_seamless_publickey (IncomingMessage_headers lines)
           = HString (join '', '' (v1 # v2 # vs))
         \<and> fst (handleHTTPEstablishRequest newId
                  \<lparr>headers = IncomingMessage_headers lines, remoteAddress = peer\<rparr> s)
             \<noteq> Inr \<lparr>status = 400, body = ''Missing x-seamless-publickey''\<rparr>)
   \<and> (\<forall>v1 v2 vs. header_values ''x-seamless-connection-id'' lines = v1 # v2 # vs \<longrightarrow>
         x_seamless_connection_id (IncomingMessage_headers lines)
           = HString (join '', '' (v1 # v2 # vs))
         \<and> (\<not> js_in (join '', '' (v1 # v2 # vs)) (connections s) \<longrightarrow>
              handleHTTPMessageRequest env
                \<lparr>headers = IncomingMessage_headers lines, remoteAddress = peer\<rparr> s
              = (Inr \<lparr>status = 404, body = ''Connection not found''\<rparr>, s)))"
proof -
  have 1: "typeof (x_seamless_publickey (headers req)) \<noteq> ''string'' \<longrightarrow>
      handleHTTPEstablishRequest newId req s
        = handleHTTPEstablishRequest newId
            (req\<lparr>headers := (headers req)\<lparr>x_seamless_publickey := HUndefined\<rparr>\<rparr>) s
      \<and> handleHTTPEstablishRequest newId req s
          = (Inr \<lparr>status = 400, body = ''Missing x-seamless-publickey''\<rparr>, s)"
    by (simp add: establish_reject_publickey)
  have 2: "typeof (x_seamless_connection_id (headers req)) \<noteq> ''string'' \<longrightarrow>
      handleHTTPMessageRequest env req s
        = handleHTTPMessageRequest env
            (req\<lparr>headers := (headers req)\<lparr>x_seamless_connection_id := HUndefined\<rparr>\<rparr>) s
      \<and> handleHTTPMessageRequest env req s
          = (Inr \<lparr>status = 400, body = ''Missing connectionId''\<rparr>, s)"
    by (simp add: message_reject_connection_id)
  have 3: "handleHTTPEstablishRequest newId req s
         \<noteq> (Inr \<lparr>status = 400, body = ''Missing x-seamless-publickey''\<rparr>, s)
       \<longrightarrow> (\<exists>k. x_seamless_publickey (headers req) = HString k)"
    using establish_reject_publickey publickey_passes by blast
  have 4: "handleHTTPMessageRequest env req s
         \<noteq> (Inr \<lparr>status = 400, body = ''Missing connectionId''\<rparr>, s)
       \<longrightarrow> (\<exists>k. x_seamless_connection_id (headers req) = HString k)"
    using message_reject_connection_id publickey_passes by blast
  have 5: "typeof (x_seamless_publickey (IncomingMessage_headers lines)) \<noteq> ''object''"
    and 6: "typeof (x_seamless_connection_id (IncomingMessage_headers lines)) \<noteq> ''object''"
    by (simp_all add: IncomingMessage_headers_def joined_header_typeof)
  have 7: "\<forall>v1 v2 vs. header_values ''x-seamless-publickey'' lines = v1 # v2 # vs \<longrightarrow>
         x_seamless_publickey (IncomingMessage_headers lines)
           = HString (join '', '' (v1 # v2 # vs))
         \<and> fst (handleHTTPEstablishRequest newId
                  \<lparr>headers = IncomingMessage_headers lines, remoteAddress = peer\<rparr> s)
             \<noteq> Inr \<lparr>status = 400, body = ''Missing x-seamless-publickey''\<rparr>"
  proof (intro allI impI)
    fix v1 v2 vs
    assume "header_values ''x-seamless-publickey'' lines = v1 # v2 # vs"
    then have j: "joined_header ''x-seamless-publickey'' lines = HString (join '', '' (v1 # v2 # vs))"
      and ne: "join '', '' (v1 # v2 # vs) \<noteq> []"
      using joined_header_repeated by blast+
    from j have hv: "x_seamless_publickey (IncomingMessage_headers lines)
                       = HString (join '', '' (v1 # v2 # vs))"
      by (simp add: IncomingMessage_headers_def)
    then have "x_seamless_publickey
                 (headers \<lparr>headers = IncomingMessage_headers lines, remoteAddress = peer\<rparr>)
               = HString (join '', '' (v1 # v2 # vs))"
      by simp
    from establish_passed_publickey [OF this ne] hv
    show "x_seamless_publickey (IncomingMessage_headers lines)
            = HString (join '', '' (v1 # v2 # vs))
          \<and> fst (handleHTTPEstablishRequest newId
                   \<lparr>headers = IncomingMessage_headers lines, remoteAddress = peer\<rparr> s)
              \<noteq> Inr \<lparr>status = 400, body = ''Missing x-seamless-publickey''\<rparr>"
      by blast
  qed
  have 8: "\<forall>v1 v2 vs. header_values ''x-seamless-connection-id'' lines = v1 # v2 # vs \<longrightarrow>
         x_seamless_connection_id (IncomingMessage_headers lines)
           = HString (join '', '' (v1 # v2 # vs))
         \<and> (\<not> js_in (join '', '' (v1 # v2 # vs)) (connections s) \<longrightarrow>
              handleHTTPMessageRequest env
                \<lparr>headers = IncomingMessage_headers lines, remoteAddress = peer\<rparr> s
              = (Inr \<lparr>status = 404, body = ''Connection not found''\<rparr>, s))"
  proof (intro allI impI conjI)
    fix v1 v2 vs
    assume a: "header_values ''x-seamless-connection-id'' lines = v1 # v2 # vs"
    then have j: "joined_header ''x-seamless-connection-id'' lines
                    = HString (join '', '' (v1 # v2 # vs))"
      and ne: "join '', '' (v1 # v2 # vs) \<noteq> []"
      using joined_header_repeated by blast+
    from j show hv: "x_seamless_connection_id (IncomingMessage_headers lines)
                       = HString (join '', '' (v1 # v2 # vs))"
      by (simp add: IncomingMessage_headers_def)
    assume nin: "\<not> js_in (join '', '' (v1 # v2 # vs)) (connections s)"
    from hv have "x_seamless_connection_id
                    (headers \<lparr>headers = IncomingMessage_headers lines, remoteAddress = peer\<rparr>)
                  = HString (join '', '' (v1 # v2 # vs))"
      by simp
    from message_not_found [OF this ne]
    show "handleHTTPMessageRequest env
            \<lparr>headers = IncomingMessage_headers lines, remoteAddress = peer\<rparr> s
          = (Inr \<lparr>status = 404, body = ''Connection not found''\<rparr>, s)"
      using nin by simp
  qed
  from 1 2 3 4 5 6 7 8 show ?thesis
    by blast
qed

text \<open>
  A request whose two headers hold arrays, as their type admits, and the request of the
  counterexample, which sends both headers twice.
\<close>

theorem C10_only_strings_accepted_witness:
  "typeof (x_seamless_publickey (headers
       \<lparr>headers = example_headers\<lparr>x_seamless_publickey := HArray [''pk_a'', ''pk_b''],
                                   x_seamless_connection_id := HArray [''abc'', ''abc'']\<rparr>,
        remoteAddress = Some ''10.0.0.1''\<rparr>)) = ''object''
   \<and> handleHTTPEstablishRequest ''id1''
       \<lparr>headers = example_headers\<lparr>x_seamless_publickey := HArray [''pk_a'', ''pk_b''],
                                   x_seamless_connection_id := HArray [''abc'', ''abc'']\<rparr>,
        remoteAddress = Some ''10.0.0.1''\<rparr> one_connection_server
     = (Inr \<lparr>status = 400, body = ''Missing x-seamless-publickey''\<rparr>, one_connection_server)
   \<and> handleHTTPMessageRequest throwing_collaborators
       \<lparr>headers = example_headers\<lparr>x_seamless_publickey := HArray [''pk_a'', ''pk_b''],
                                   x_seamless_connection_id := HArray [''abc'', ''abc'']\<rparr>,
        remoteAddress = Some ''10.0.0.1''\<rparr> one_connection_server
     = (Inr \<lparr>status = 400, body = ''Missing connectionId''\<rparr>, one_connection_server)
   \<and> header_values ''x-seamless-publickey'' repeated_header_lines = [''pk_a'', ''pk_b'']
   \<and> header_values ''x-seamless-connection-id'' repeated_header_lines = [''abc'', ''abc'']
   \<and> x_seamless_publickey (IncomingMessage_headers repeated_header_lines)
       = HString (join '', '' [''pk_a'', ''pk_b''])
   \<and> fst (handleHTTPEstablishRequest ''id1''
            \<lparr>headers = IncomingMessage_headers repeated_header_lines, remoteAddress = None\<rparr>
            one_connection_server)
       \<noteq> Inr \<lparr>status = 400, body = ''Missing x-seamless-publickey''\<rparr>
   \<and> handleHTTPMessageRequest throwing_collaborators
       \<lparr>headers = IncomingMessage_headers repeated_header_lines, remoteAddress = None\<rparr>
       one_connection_server
     = (Inr \<lparr>status = 404, body = ''Connection not found''\<rparr>, one_connection_server)"
proof -
  let ?req = "\<lparr>headers = example_headers\<lparr>x_seamless_publickey := HArray [''pk_a'', ''pk_b''],
                                   x_seamless_connection_id := HArray [''abc'', ''abc'']\<rparr>,
        remoteAddress = Some ''10.0.0.1''\<rparr>"
  have ty: "typeof (x_seamless_publickey (headers ?req)) = ''object''"
    by simp
  then have a: "typeof (x_seamless_publickey (headers ?req)) \<noteq> ''string''"
    by simp
  have b: "typeof (x_seamless_connection_id (headers ?req)) \<noteq> ''string''"
    by simp
  note pk = repeated_header_values(3) and ci = repeated_header_values(4)
  have unknown: "\<not> js_in (join '', '' [''abc'', ''abc'']) (connections one_connection_server)"
    by (simp add: js_in_def one_connection_server_def Object_prototype_keys_def)
  note inst = C10_only_strings_accepted [where newId = "''id1''" and s = one_connection_server
      and env = throwing_collaborators and req = ?req and lines = repeated_header_lines
      and peer = None]
  from inst a have r1: "handleHTTPEstablishRequest ''id1'' ?req one_connection_server
     = (Inr \<lparr>status = 400, body = ''Missing x-seamless-publickey''\<rparr>, one_connection_server)"
    by blast
  from inst b have r2: "handleHTTPMessageRequest throwing_collaborators ?req one_connection_server
     = (Inr \<lparr>status = 400, body = ''Missing connectionId''\<rparr>, one_connection_server)"
    by blast
  from inst pk have r3: "x_seamless_publickey (IncomingMessage_headers repeated_header_lines)
       = HString (join '', '' [''pk_a'', ''pk_b''])
     \<and> fst (handleHTTPEstablishRequest ''id1''
            \<lparr>headers = IncomingMessage_headers repeated_header_lines, remoteAddress = None\<rparr>
            one_connection_server)
       \<noteq> Inr \<lparr>status = 400, body = ''Missing x-seamless-publickey''\<rparr>"
    by blast
  from inst ci unknown have r4: "handleHTTPMessageRequest throwing_collaborators
       \<lparr>headers = IncomingMessage_headers repeated_header_lines, remoteAddress = None\<rparr>
       one_connection_server
     = (Inr \<lparr>status = 404, body = ''Connection not found''\<rparr>, one_connection_server)"
    by blast
  from ty r1 r2 pk ci r3 r4 show ?thesis
    by blast
qed

end
